theory Spec2Isabelle
  imports Complex_Main
begin

section \<open>Python values\<close>

text \<open>
  The analytics core computes on Python floats. They are modelled as \<^typ>\<open>real\<close>, with
  exact arithmetic: a decimal literal such as \<open>0.997\<close> is the rational it denotes, and no
  operation rounds, overflows or yields NaN. An \<open>Optional[float]\<close> argument is a
  \<^typ>\<open>real option\<close>; Python tests such an argument by truthiness, under which both
  \<open>None\<close> and \<open>0.0\<close> count as absent. Strings are byte strings (UTF-8), integers are
  \<^typ>\<open>int\<close>, and every exception the code can raise is a value of \<open>py_error\<close>.
\<close>

datatype py_error = ValueError | ZeroDivisionError | IndexError | TypeError | AttributeError

definition truthy :: "real option \<Rightarrow> bool" where
  "truthy v = (case v of None \<Rightarrow> False | Some x \<Rightarrow> x \<noteq> 0)"

section \<open>config.py\<close>

definition STRUCTURAL_TARGET_RATIO :: real where
  "STRUCTURAL_TARGET_RATIO = 3.0"

definition PARTIAL_TARGET_RATIO :: real where
  "PARTIAL_TARGET_RATIO = 1.5"

definition RR_MIN :: real where
  "RR_MIN = 3.0"

definition RR_MAX :: real where
  "RR_MAX = 10.0"

section \<open>risk\_utils.py\<close>

subsection \<open>select\_structural\_limit\<close>

text \<open>
  The four candidate sources of the limit, in the order of the source. Each returns
  \<open>Some raw\<close> where the source executes \<open>return raw\<close> and \<open>None\<close> where control
  falls through to the next source.
\<close>

definition limit_from_trendline :: "real \<Rightarrow> real \<Rightarrow> real option \<Rightarrow> string \<Rightarrow> real option" where
  "limit_from_trendline entry_price atr trendline_price side =
     (case trendline_price of
        None \<Rightarrow> None
      | Some tp \<Rightarrow>
          if tp = 0 then None
          else
            let buffer = 0.25 * atr;
                raw = (if side = ''LONG'' then tp - buffer else tp + buffer);
                dist = \<bar>entry_price - raw\<bar>
            in if dist < 6 * atr \<and>
                  ((side = ''LONG'' \<and> raw < entry_price) \<or> (side = ''SHORT'' \<and> raw > entry_price))
               then Some raw else None)"

definition limit_from_swing :: "real \<Rightarrow> real \<Rightarrow> real option \<Rightarrow> real option \<Rightarrow> string \<Rightarrow> real option" where
  "limit_from_swing entry_price atr swing_high swing_low side =
     (if side = ''LONG'' \<and> truthy swing_low then
        let raw = the swing_low * 0.997 - 0.25 * atr;
            dist = \<bar>entry_price - raw\<bar>
        in if raw < entry_price \<and> dist < 3 * atr then Some raw else None
      else if side = ''SHORT'' \<and> truthy swing_high then
        let raw = the swing_high * 1.003 + 0.25 * atr;
            dist = \<bar>entry_price - raw\<bar>
        in if raw > entry_price \<and> dist < 3 * atr then Some raw else None
      else None)"

definition limit_from_level :: "real \<Rightarrow> real \<Rightarrow> real option \<Rightarrow> string \<Rightarrow> real option" where
  \<comment> \<open>the POC block and the low-volume block of the source have the same body\<close>
  "limit_from_level entry_price atr level side =
     (case level of
        None \<Rightarrow> None
      | Some p \<Rightarrow>
          if p = 0 then None
          else
            let raw = (if side = ''LONG'' then p - 0.25 * atr else p + 0.25 * atr);
                dist = \<bar>entry_price - raw\<bar>
            in if (side = ''LONG'' \<and> raw < entry_price) \<or> (side = ''SHORT'' \<and> raw > entry_price)
               then (if dist < 3 * atr then Some raw else None)
               else None)"

definition select_structural_limit ::
  "real \<Rightarrow> real \<Rightarrow> real option \<Rightarrow> real option \<Rightarrow> real option \<Rightarrow> real option \<Rightarrow> real option
     \<Rightarrow> string \<Rightarrow> py_error + real option" where
  "select_structural_limit entry_price atr swing_high swing_low trendline_price poc
       low_volume_exit side =
     (if atr \<le> 0 then Inl ValueError
      else case limit_from_trendline entry_price atr trendline_price side of
        Some raw \<Rightarrow> Inr (Some raw)
      | None \<Rightarrow>
      (case limit_from_swing entry_price atr swing_high swing_low side of
        Some raw \<Rightarrow> Inr (Some raw)
      | None \<Rightarrow>
      (case limit_from_level entry_price atr poc side of
        Some raw \<Rightarrow> Inr (Some raw)
      | None \<Rightarrow>
      (case limit_from_level entry_price atr low_volume_exit side of
        Some raw \<Rightarrow> Inr (Some raw)
      | None \<Rightarrow> Inr None))))"

subsection \<open>select\_structural\_target\<close>

definition swing_target ::
  "real \<Rightarrow> real option \<Rightarrow> real option \<Rightarrow> real option \<Rightarrow> real option \<Rightarrow> string \<Rightarrow> bool
     \<Rightarrow> real option" where
  "swing_target entry_price swing_high swing_low next_swing_high next_swing_low side breakout =
     (if breakout then
        (if side = ''LONG'' \<and> truthy next_swing_high then
           let candidate = the next_swing_high * 0.995
           in if candidate > entry_price then Some candidate else None
         else if side = ''SHORT'' \<and> truthy next_swing_low then
           let candidate = the next_swing_low * 1.005
           in if candidate < entry_price then Some candidate else None
         else None)
      else
        (if side = ''LONG'' \<and> truthy swing_high then
           let candidate = the swing_high * 0.995
           in if candidate > entry_price then Some candidate else None
         else if side = ''SHORT'' \<and> truthy swing_low then
           let candidate = the swing_low * 1.005
           in if candidate < entry_price then Some candidate else None
         else None))"

definition level_target :: "real option \<Rightarrow> real \<Rightarrow> real option \<Rightarrow> string \<Rightarrow> real option" where
  \<comment> \<open>steps 2 to 4 of the source: \<open>if target is None and level: if favourable: target = level\<close>\<close>
  "level_target target entry_price level side =
     (if target = None \<and> truthy level then
        (if (side = ''LONG'' \<and> the level > entry_price) \<or> (side = ''SHORT'' \<and> the level < entry_price)
         then level else target)
      else target)"

definition select_structural_target ::
  "real \<Rightarrow> real \<Rightarrow> real \<Rightarrow> real option \<Rightarrow> real option \<Rightarrow> real option \<Rightarrow> real option
     \<Rightarrow> real option \<Rightarrow> real option \<Rightarrow> real option \<Rightarrow> string \<Rightarrow> bool \<Rightarrow> real
     \<Rightarrow> py_error + (real \<times> real option \<times> bool)" where
  "select_structural_target entry_price structural_limit atr swing_high swing_low
       next_swing_high next_swing_low trendline_target poc low_volume_exit side breakout
       confidence =
     (let stop_dist = \<bar>entry_price - structural_limit\<bar>;
          sgn1 = (if side = ''LONG'' then 1 else - 1);
          target1 = swing_target entry_price swing_high swing_low next_swing_high
                      next_swing_low side breakout;
          target2 = level_target target1 entry_price poc side;
          target3 = level_target target2 entry_price trendline_target side;
          target4 = level_target target3 entry_price low_volume_exit side;
          target = (case target4 of
                      None \<Rightarrow> entry_price + stop_dist * STRUCTURAL_TARGET_RATIO * sgn1
                    | Some t \<Rightarrow> t)
      in if stop_dist = 0 then Inl ZeroDivisionError
         else
           let rr_used = \<bar>target - entry_price\<bar> / stop_dist
           in if rr_used > STRUCTURAL_TARGET_RATIO
              then Inr (target, Some (entry_price + stop_dist * PARTIAL_TARGET_RATIO * sgn1), True)
              else Inr (target, None, False))"

section \<open>Strings and sequences\<close>

text \<open>
  \<open>str.upper\<close> and \<open>str.lower\<close> on the bytes of a string: the ASCII letters change case
  and every other byte stays. Python agrees on every ASCII string. On other strings
  \<open>upper\<close> may yield further characters, but none of them makes the result equal to
  \<open>REJECTED\<close> or \<open>ACCEPTED\<close>, the only strings the code compares an upper-cased string with.
  For \<open>lower\<close> that is not so: \<open>str.lower\<close> maps U+212A KELVIN SIGN to the letter k, which
  the byte-wise \<open>lower\<close> leaves as the three bytes it is. What is proved below of
  lower-cased text is therefore proved of ASCII strings, \<open>is_ascii\<close>.
\<close>

definition upper_char :: "char \<Rightarrow> char" where
  "upper_char c =
     (let n = (of_char c :: nat) in if 97 \<le> n \<and> n \<le> 122 then char_of (n - 32) else c)"

definition lower_char :: "char \<Rightarrow> char" where
  "lower_char c =
     (let n = (of_char c :: nat) in if 65 \<le> n \<and> n \<le> 90 then char_of (n + 32) else c)"

definition upper :: "string \<Rightarrow> string" where
  "upper s = map upper_char s"

definition lower :: "string \<Rightarrow> string" where
  "lower s = map lower_char s"





definition py_slice :: "'a list \<Rightarrow> int \<Rightarrow> int \<Rightarrow> 'a list" where
  \<comment> \<open>\<open>xs[i:j]\<close>: a negative bound counts from the end, and both are clamped to the list\<close>
  "py_slice xs i j =
     (let n = int (length xs);
          a = (if i < 0 then max (i + n) 0 else min i n);
          b = (if j < 0 then max (j + n) 0 else min j n)
      in take (nat (b - a)) (drop (nat a) xs))"

definition py_nth :: "'a list \<Rightarrow> int \<Rightarrow> 'a" where
  \<comment> \<open>\<open>xs[i]\<close> for an index in range, \<open>- len(xs) \<le> i < len(xs)\<close>; every use below is
      behind a length check, and where the source has none the model raises IndexError\<close>
  "py_nth xs i = xs ! nat (if i < 0 then int (length xs) + i else i)"

fun max_list :: "real list \<Rightarrow> real" where
  \<comment> \<open>\<open>max(xs)\<close> of a non-empty list\<close>
  "max_list [x] = x"
| "max_list (x # y # ys) = max x (max_list (y # ys))"

section \<open>context\_evaluator.py\<close>

text \<open>
  The replay is modelled on what \<open>csv.DictReader\<close> yields from the persisted log, a
  \<open>log_file\<close>: \<open>None\<close> when the file does not exist, and otherwise the list of its rows,
  each a dictionary from column names to values. A value is \<open>None\<close> where the reader
  fills a column that a short line lacks.

  The file itself is a \<open>csv_file\<close>: \<open>None\<close> when it does not exist, and otherwise the
  records of its lines in order, each the list of its fields; a blank line is the empty
  record, and a file of zero bytes has no record. \<open>dict_reader\<close> is the reader: the first
  record gives the column names, blank lines after it are skipped, and every other
  record is paired with the column names. \<open>_write_csv_row\<close> appends one record, after the
  header when the file did not exist. Quoting is taken to round-trip each field, the
  lines of an existing file to be complete, and the operating system not to fail.
  The current UTC date, which the code reads from the clock, is the parameter \<open>today\<close>.
\<close>

type_synonym row = "string \<rightharpoonup> string option"

type_synonym log_file = "row list option"

type_synonym csv_file = "string list list option"

record context_evaluator =
  daily_rejection_count :: int
  consecutive_rejections :: int

definition row_get :: "row \<Rightarrow> string \<Rightarrow> string option" where
  \<comment> \<open>\<open>row.get(key)\<close>\<close>
  "row_get r k = (case r k of None \<Rightarrow> None | Some v \<Rightarrow> v)"

definition row_get_default :: "row \<Rightarrow> string \<Rightarrow> string \<Rightarrow> string option" where
  \<comment> \<open>\<open>row.get(key, default)\<close>\<close>
  "row_get_default r k d = (case r k of None \<Rightarrow> Some d | Some v \<Rightarrow> v)"

definition row_values :: "row \<Rightarrow> string list \<Rightarrow> string list" where
  \<comment> \<open>what \<open>DictWriter.writerow\<close> writes: \<open>rowdict.get(key, "")\<close> for each column, and
      the empty field for \<open>None\<close>; the keys of the row are columns, as in the only call\<close>
  "row_values r header = map (\<lambda>k. case r k of Some (Some v) \<Rightarrow> v | _ \<Rightarrow> []) header"

definition write_csv_row :: "csv_file \<Rightarrow> row \<Rightarrow> string list \<Rightarrow> csv_file" where
  \<comment> \<open>the header is written only when the file did not exist\<close>
  "write_csv_row file r header =
     (case file of
        None \<Rightarrow> Some [header, row_values r header]
      | Some recs \<Rightarrow> Some (recs @ [row_values r header]))"

definition read_row :: "string list \<Rightarrow> string list \<Rightarrow> row" where
  \<comment> \<open>\<open>dict(zip(fieldnames, row))\<close>, then \<open>None\<close> for the columns a short record lacks\<close>
  "read_row fieldnames rec =
     fold (\<lambda>k m. m(k \<mapsto> None)) (drop (length rec) fieldnames)
       (fold (\<lambda>kv m. m(fst kv \<mapsto> Some (snd kv))) (zip fieldnames rec) Map.empty)"

definition dict_reader :: "csv_file \<Rightarrow> log_file" where
  "dict_reader file =
     (case file of
        None \<Rightarrow> None
      | Some [] \<Rightarrow> Some []
      | Some (fieldnames # recs) \<Rightarrow>
          Some (map (read_row fieldnames) (filter (\<lambda>rec. rec \<noteq> []) recs)))"

definition count_rejected :: "context_evaluator \<Rightarrow> context_evaluator" where
  \<comment> \<open>\<open>self.daily_rejection_count += 1; self.consecutive_rejections += 1\<close>\<close>
  "count_rejected self =
     self\<lparr>daily_rejection_count := daily_rejection_count self + 1,
          consecutive_rejections := consecutive_rejections self + 1\<rparr>"

definition count_accepted :: "context_evaluator \<Rightarrow> context_evaluator" where
  \<comment> \<open>\<open>self.consecutive_rejections = 0\<close>\<close>
  "count_accepted self = self\<lparr>consecutive_rejections := 0\<rparr>"

definition log_row :: "string \<Rightarrow> string \<Rightarrow> string \<Rightarrow> row" where
  \<comment> \<open>the dictionary \<open>{"date": ..., "symbol": ..., "scenario_status": ...}\<close>\<close>
  "log_row date_utc symbol status =
     [''date'' \<mapsto> Some date_utc, ''symbol'' \<mapsto> Some symbol, ''scenario_status'' \<mapsto> Some status]"

definition log_scenario ::
  "string \<Rightarrow> csv_file \<times> context_evaluator \<Rightarrow> string \<Rightarrow> string \<Rightarrow> string
     \<Rightarrow> csv_file \<times> context_evaluator" where
  "log_scenario today st date_utc symbol scenario_status =
     (let r = log_row date_utc symbol (upper scenario_status);
          file = write_csv_row (fst st) r [''date'', ''symbol'', ''scenario_status''];
          self = snd st
      in if date_utc \<noteq> today then (file, self)
         else if upper scenario_status = ''REJECTED'' then (file, count_rejected self)
         else if upper scenario_status = ''ACCEPTED'' then (file, count_accepted self)
         else (file, self))"

fun replay_rows :: "string \<Rightarrow> row list \<Rightarrow> context_evaluator \<Rightarrow> py_error + context_evaluator" where
  \<comment> \<open>the \<open>for row in reader\<close> loop; \<open>None.upper()\<close> raises AttributeError\<close>
  "replay_rows today [] self = Inr self"
| "replay_rows today (r # rs) self =
     (if row_get r ''date'' \<noteq> Some today then replay_rows today rs self
      else
        (case row_get_default r ''scenario_status'' [] of
           None \<Rightarrow> Inl AttributeError
         | Some status \<Rightarrow>
             if upper status = ''REJECTED'' then replay_rows today rs (count_rejected self)
             else if upper status = ''ACCEPTED'' then replay_rows today rs (count_accepted self)
             else replay_rows today rs self))"

definition load_today_stats ::
  "string \<Rightarrow> log_file \<Rightarrow> context_evaluator \<Rightarrow> py_error + context_evaluator" where
  \<comment> \<open>on the rows the reader yields, \<open>dict_reader\<close> of the file\<close>
  "load_today_stats today file self =
     (case file of None \<Rightarrow> Inr self | Some rows \<Rightarrow> replay_rows today rows self)"

definition new_context_evaluator :: "string \<Rightarrow> log_file \<Rightarrow> py_error + context_evaluator" where
  \<comment> \<open>\<open>ContextEvaluator.__init__\<close>\<close>
  "new_context_evaluator today file =
     load_today_stats today file
       \<lparr>daily_rejection_count = 0, consecutive_rejections = 0\<rparr>"

definition today_event :: "string \<Rightarrow> string \<Rightarrow> row \<Rightarrow> bool" where
  \<comment> \<open>a row dated \<open>today\<close> whose status, upper-cased, is \<open>status\<close>\<close>
  "today_event today status r =
     (row_get r ''date'' = Some today \<and>
      (case row_get_default r ''scenario_status'' [] of
         None \<Rightarrow> False
       | Some s \<Rightarrow> upper s = status))"

section \<open>indicators.py\<close>

definition calculate_trend :: "real list \<Rightarrow> real \<Rightarrow> int \<Rightarrow> string" where
  "calculate_trend closes atr ema_period =
     (if length closes < 6 then ''flat''
      else if py_nth closes (- 1) > py_nth closes (- 5) + 0.2 * atr then ''up''
      else if py_nth closes (- 1) < py_nth closes (- 5) - 0.2 * atr then ''down''
      else ''flat'')"

record candle_stats =
  body :: real
  upper_wick :: real
  lower_wick :: real
  volume :: real
  volume_spike :: bool
  strong_body :: bool
  doji :: bool
  weak_volume :: bool

definition evaluate_direction ::
  "real \<Rightarrow> real \<Rightarrow> real \<Rightarrow> string \<Rightarrow> real \<Rightarrow> real list \<Rightarrow> real list \<Rightarrow> candle_stats
     \<Rightarrow> string option \<times> string list \<times> bool" where
  "evaluate_direction current_price swing_high swing_low trend_1h atr highs lows cs =
     (let in_middle = (swing_low < current_price \<and> current_price < swing_high);
          breakout_up = (swing_high \<noteq> 0 \<and> current_price > swing_high + 0.1 * atr \<and>
                         strong_body cs \<and> volume_spike cs \<and> trend_1h = ''up'');
          breakout_down = (swing_low \<noteq> 0 \<and> current_price < swing_low - 0.1 * atr \<and>
                         strong_body cs \<and> volume_spike cs \<and> trend_1h = ''down'');
          large_bounce = 1.8;
          bounce_up = (swing_low \<noteq> 0 \<and> lower_wick cs > body cs * 1.5 \<and>
                       current_price > swing_low \<and> trend_1h \<noteq> ''down'');
          bounce_down = (swing_high \<noteq> 0 \<and> upper_wick cs > body cs * 1.5 \<and>
                       current_price < swing_high \<and> trend_1h \<noteq> ''up'');
          d1 = (if breakout_up then (Some ''LONG'', [''Breakout up + volume + 1H trend''])
                else if breakout_down then (Some ''SHORT'', [''Breakout down + volume + 1H trend''])
                else if bounce_up \<and> \<bar>current_price - swing_low\<bar> < large_bounce * atr
                  then (Some ''LONG'', [''Bounce from swing-LOW within 1.8 ATR''])
                else if bounce_down \<and> \<bar>current_price - swing_high\<bar> < large_bounce * atr
                  then (Some ''SHORT'', [''Bounce from swing-HIGH within 1.8 ATR''])
                else (None, []));
          d2 = (if fst d1 = None then
                  (if current_price > swing_high
                     then (Some ''LONG'', snd d1 @ [''Simple up breakout''])
                   else if current_price < swing_low
                     then (Some ''SHORT'', snd d1 @ [''Simple down breakout''])
                   else d1)
                else d1);
          d3 = (if fst d2 = None \<and> strong_body cs \<and> volume_spike cs then
                  (if current_price > swing_high + 0.1 * atr
                     then (Some ''LONG'', snd d2 @ [''Flat-breakout + volume''])
                   else if current_price < swing_low - 0.1 * atr
                     then (Some ''SHORT'', snd d2 @ [''Flat-breakout + volume''])
                   else d2)
                else d2)
      in (fst d3, snd d3, in_middle))"

definition classify_market_mode :: "string \<Rightarrow> real \<Rightarrow> real \<Rightarrow> real list \<Rightarrow> py_error + string" where
  "classify_market_mode trend_1h atr_fast atr_slow vols_15m =
     (if vols_15m = [] then Inl IndexError
      else if py_slice vols_15m (- 5) (- 1) = [] then Inl ValueError
      else
        let spike = (py_nth vols_15m (- 1) > max_list (py_slice vols_15m (- 5) (- 1)))
        in if trend_1h = ''flat'' \<and> atr_fast < atr_slow * 0.6 then Inr ''flet''
           else if (trend_1h = ''up'' \<or> trend_1h = ''down'') \<and> spike then Inr ''trend''
           else if atr_fast > atr_slow * 1.8 then Inr ''scalp''
           else Inr ''neutral'')"

definition market_modes :: "string set" where
  \<comment> \<open>the enumeration the specification gives for the market mode\<close>
  "market_modes = {''trend'', ''scalp'', ''flat'', ''neutral''}"

section \<open>entry\_filter\_retest.py\<close>

text \<open>
  The filter returns \<open>None\<close> (pass) or a dictionary. A dictionary is the list of its
  items in insertion order; its values are strings and floats.
\<close>

datatype py_value = Str string | Num real

type_synonym verdict = "(string \<times> py_value) list"

definition em_dash :: string where
  \<comment> \<open>U+2014 in UTF-8\<close>
  "em_dash = [CHR 0xE2, CHR 0x80, CHR 0x94]"







definition body_stretch :: "real \<Rightarrow> verdict" where
  "body_stretch atr =
     [(''status'', Str ''skip''),
      (''reason'', Str (''body stretch '' @ em_dash @ '' evaluation too late'')),
      (''atr'', Num atr)]"






section \<open>entry\_filter.py\<close>


section \<open>Structural limit and target\<close>

lemma limit_from_trendline_side:
  "limit_from_trendline e atr tlp side = Some raw \<Longrightarrow>
     (side = ''LONG'' \<and> raw < e) \<or> (side = ''SHORT'' \<and> e < raw)"
  by (auto simp: limit_from_trendline_def Let_def split: option.splits if_splits)

lemma limit_from_swing_side:
  "limit_from_swing e atr sh sl side = Some raw \<Longrightarrow>
     (side = ''LONG'' \<and> raw < e) \<or> (side = ''SHORT'' \<and> e < raw)"
  by (auto simp: limit_from_swing_def Let_def split: option.splits if_splits)

lemma limit_from_level_side:
  "limit_from_level e atr p side = Some raw \<Longrightarrow>
     (side = ''LONG'' \<and> raw < e) \<or> (side = ''SHORT'' \<and> e < raw)"
  by (auto simp: limit_from_level_def Let_def split: option.splits if_splits)

lemma limit_side:
  assumes "select_structural_limit e atr sh sl tlp poc lve side = Inr (Some lm)"
  shows "(side = ''LONG'' \<and> lm < e) \<or> (side = ''SHORT'' \<and> e < lm)"
  using assms limit_from_trendline_side [of e atr tlp side lm]
    limit_from_swing_side [of e atr sh sl side lm]
    limit_from_level_side [of e atr poc side lm] limit_from_level_side [of e atr lve side lm]
  by (auto simp: select_structural_limit_def split: option.splits if_splits)

lemma swing_target_side:
  "swing_target e sh sl nsh nsl side b = Some t \<Longrightarrow>
     (side = ''LONG'' \<and> e < t) \<or> (side = ''SHORT'' \<and> t < e)"
  by (auto simp: swing_target_def Let_def split: if_splits)

lemma level_target_side:
  assumes "\<forall>t'. t0 = Some t' \<longrightarrow> (side = ''LONG'' \<and> e < t') \<or> (side = ''SHORT'' \<and> t' < e)"
  shows "\<forall>t. level_target t0 e lvl side = Some t \<longrightarrow>
           (side = ''LONG'' \<and> e < t) \<or> (side = ''SHORT'' \<and> t < e)"
  using assms by (auto simp: level_target_def truthy_def split: if_splits option.splits)

text \<open>
  A call that returns has a non-zero stop distance, so even the ratio fallback moves
  the target off the entry price.
\<close>

lemma target_side:
  assumes "select_structural_target e lm atr sh sl nsh nsl tt poc lve side b c = Inr (t, pt, dyn)"
    and "side = ''LONG'' \<or> side = ''SHORT''"
  shows "(side = ''LONG'' \<and> e < t) \<or> (side = ''SHORT'' \<and> t < e)"
proof -
  let ?t1 = "swing_target e sh sl nsh nsl side b"
  let ?t2 = "level_target ?t1 e poc side"
  let ?t3 = "level_target ?t2 e tt side"
  let ?t4 = "level_target ?t3 e lve side"
  have nz: "\<bar>e - lm\<bar> \<noteq> 0"
    using assms(1) by (auto simp: select_structural_target_def Let_def split: if_splits)
  have t: "t = (case ?t4 of
                  None \<Rightarrow> e + \<bar>e - lm\<bar> * STRUCTURAL_TARGET_RATIO *
                            (if side = ''LONG'' then 1 else - 1)
                | Some t' \<Rightarrow> t')"
    using assms(1) by (auto simp: select_structural_target_def Let_def split: if_splits)
  have s1: "\<forall>t'. ?t1 = Some t' \<longrightarrow> (side = ''LONG'' \<and> e < t') \<or> (side = ''SHORT'' \<and> t' < e)"
    using swing_target_side by blast
  have s2: "\<forall>t'. ?t2 = Some t' \<longrightarrow> (side = ''LONG'' \<and> e < t') \<or> (side = ''SHORT'' \<and> t' < e)"
    by (rule level_target_side [OF s1])
  have s3: "\<forall>t'. ?t3 = Some t' \<longrightarrow> (side = ''LONG'' \<and> e < t') \<or> (side = ''SHORT'' \<and> t' < e)"
    by (rule level_target_side [OF s2])
  have s4: "\<forall>t'. ?t4 = Some t' \<longrightarrow> (side = ''LONG'' \<and> e < t') \<or> (side = ''SHORT'' \<and> t' < e)"
    by (rule level_target_side [OF s3])
  show ?thesis
  proof (cases ?t4)
    case None
    then have "t = e + \<bar>e - lm\<bar> * 3 * (if side = ''LONG'' then 1 else - 1)"
      using t by (simp add: STRUCTURAL_TARGET_RATIO_def)
    then show ?thesis using nz assms(2) by auto
  next
    case (Some t')
    then show ?thesis using t s4 by simp
  qed
qed

lemma target_returns_after_limit:
  assumes "select_structural_limit e atr sh sl tlp poc lve side = Inr (Some lm)"
  shows "\<exists>r. select_structural_target e lm atr' sh' sl' nsh nsl tt poc' lve' side b c = Inr r"
proof -
  have "lm \<noteq> e" using limit_side [OF assms] by auto
  then have "\<bar>e - lm\<bar> \<noteq> 0" by simp
  then show ?thesis
    unfolding select_structural_target_def Let_def by (simp split: if_splits) blast
qed

lemmas risk_defs = select_structural_limit_def limit_from_trendline_def limit_from_swing_def
  limit_from_level_def select_structural_target_def swing_target_def level_target_def
  truthy_def STRUCTURAL_TARGET_RATIO_def PARTIAL_TARGET_RATIO_def

text \<open>
  C1. For every entry price, positive ATR and side LONG or SHORT: when
  \<open>select_structural_limit\<close> returns a limit and \<open>select_structural_target\<close>, called with
  that limit, returns a target, the limit is strictly on the unfavourable side of the
  entry price (below for LONG, above for SHORT), the target strictly on the favourable
  side, and neither equals the entry price.
\<close>

theorem structural_sides:
  assumes "0 < atr" and "side = ''LONG'' \<or> side = ''SHORT''"
    and "select_structural_limit entry_price atr swing_high swing_low trendline_price poc
           low_volume_exit side = Inr (Some lm)"
    and "select_structural_target entry_price lm atr' swing_high' swing_low' next_swing_high
           next_swing_low trendline_target poc' low_volume_exit' side breakout confidence
         = Inr (target, partial_target, dynamic_adjustment)"
  shows "(side = ''LONG'' \<longrightarrow> lm < entry_price \<and> entry_price < target) \<and>
         (side = ''SHORT'' \<longrightarrow> entry_price < lm \<and> target < entry_price) \<and>
         lm \<noteq> entry_price \<and> target \<noteq> entry_price"
  using limit_side [OF assms(3)] target_side [OF assms(4) assms(2)] by auto

theorem structural_sides_witness:
  "select_structural_limit 100 2 None (Some 95) None None None ''LONG'' = Inr (Some 94.215) \<and>
   select_structural_target 100 94.215 2 None None None None None (Some 105) None ''LONG'' False 0
     = Inr (105, None, False) \<and>
   (94.215 :: real) < 100 \<and> (100 :: real) < 105"
proof -
  have h1: "(0 :: real) < 2" by simp
  have h2: "''LONG'' = ''LONG'' \<or> ''LONG'' = ''SHORT''" by simp
  have h3: "select_structural_limit 100 2 None (Some 95) None None None ''LONG''
              = Inr (Some 94.215)"
    by (simp add: risk_defs)
  have h4: "select_structural_target 100 94.215 2 None None None None None (Some 105) None
              ''LONG'' False 0 = Inr (105, None, False)"
    by (simp add: risk_defs)
  from structural_sides [OF h1 h2 h3 h4] h3 h4 show ?thesis by simp
qed

text \<open>
  The flag and the partial target are set exactly when the ratio exceeds
  \<open>STRUCTURAL_TARGET_RATIO\<close>, the constant the comparison in the source names.
\<close>

lemma partial_target_iff:
  assumes "select_structural_target e lm atr sh sl nsh nsl tt poc lve side b c = Inr (t, pt, dyn)"
  shows "(pt \<noteq> None \<and> dyn) = (\<bar>t - e\<bar> / \<bar>e - lm\<bar> > STRUCTURAL_TARGET_RATIO)"
    and "(pt = None \<and> \<not> dyn) = (\<not> \<bar>t - e\<bar> / \<bar>e - lm\<bar> > STRUCTURAL_TARGET_RATIO)"
  using assms by (auto simp: select_structural_target_def Let_def split: if_splits)

text \<open>
  C3. The claim: the partial target and the dynamic-adjustment flag are set if and only
  if the risk/reward ratio exceeds \<open>RR_MAX\<close>. At entry 100, limit 99 and a point of control
  at 105 for LONG the ratio is 5, below \<open>RR_MAX = 10\<close>, and the code returns the partial
  target 101.5 with the flag raised: it compares with \<open>STRUCTURAL_TARGET_RATIO = 3\<close>.
\<close>

theorem partial_target_below_rr_max:
  "select_structural_target 100 99 1 None None None None None (Some 105) None ''LONG'' False 0
     = Inr (105, Some 101.5, True) \<and>
   \<bar>105 - 100\<bar> / \<bar>100 - 99\<bar> = (5 :: real) \<and> \<not> (5 :: real) > RR_MAX"
  by (simp add: risk_defs RR_MAX_def)

text \<open>
  C8, as stated: for entry 100, ATR 2, swing low 95 and LONG the limit is 94.265 and the
  fallback target 117.205, within floating tolerance. The code computes
  \<open>95 * 0.997 - 0.25 * 2 = 94.215\<close>, and so the target 117.355; both are 0.05 and 0.15 away
  from the stated values.
\<close>

theorem fixture_limit_not_94265:
  "select_structural_limit 100 2 None (Some 95) None None None ''LONG'' = Inr (Some 94.215) \<and>
   \<bar>94.215 - 94.265\<bar> = (0.05 :: real) \<and>
   map_sum id fst
     (select_structural_target 100 94.215 2 None None None None None None None ''LONG'' False 0)
     = Inr 117.355 \<and>
   \<bar>117.355 - 117.205\<bar> = (0.15 :: real)"
  by (simp add: risk_defs)

text \<open>
  C8, amended: for that fixture the limit is \<open>95 * 0.997 - 0.25 * 2 = 94.215\<close>, the
  fallback target is \<open>100 + (100 - 94.215) * 3.0 = 117.355\<close>, and the recomputed
  risk/reward ratio is 3.
\<close>

theorem fixture_levels:
  "select_structural_limit 100 2 None (Some 95) None None None ''LONG'' = Inr (Some 94.215) \<and>
   map_sum id fst
     (select_structural_target 100 94.215 2 None None None None None None None ''LONG'' False 0)
     = Inr (100 + (100 - 94.215) * 3.0) \<and>
   100 + (100 - 94.215) * 3.0 = (117.355 :: real) \<and>
   \<bar>117.355 - 100\<bar> / \<bar>100 - 94.215\<bar> = (3 :: real)"
  by (simp add: risk_defs)

text \<open>
  C9. \<open>select_structural_limit\<close> raises ValueError if and only if the ATR is at most 0;
  for a positive ATR it raises nothing and returns a price or \<open>None\<close>.
\<close>

theorem select_structural_limit_raises:
  "(select_structural_limit entry_price atr swing_high swing_low trendline_price poc
      low_volume_exit side = Inl err) = (atr \<le> 0 \<and> err = ValueError) \<and>
   (0 < atr \<longrightarrow>
      (\<exists>r. select_structural_limit entry_price atr swing_high swing_low trendline_price poc
              low_volume_exit side = Inr r))"
  by (auto simp: select_structural_limit_def split: option.splits)

theorem select_structural_limit_raises_witness:
  "select_structural_limit 100 0 None (Some 95) None None None ''LONG'' = Inl ValueError \<and>
   (\<exists>r. select_structural_limit 100 2 None (Some 95) None None None ''LONG'' = Inr r)"
proof -
  have h: "(0 :: real) < 2" by simp
  have a: "select_structural_limit 100 0 None (Some 95) None None None ''LONG'' = Inl ValueError"
    using select_structural_limit_raises
      [of 100 0 None "Some 95" None None None "''LONG''" ValueError]
    by simp
  have b: "\<exists>r. select_structural_limit 100 2 None (Some 95) None None None ''LONG'' = Inr r"
    using select_structural_limit_raises
      [of 100 2 None "Some 95" None None None "''LONG''" ValueError] h
    by blast
  from a b show ?thesis by simp
qed

section \<open>Hygiene counters\<close>

lemmas eval_str = upper_def upper_char_def lower_def lower_char_def char_of_eq_iff

lemma replay_rejected:
  "list_all (today_event today ''REJECTED'') rows \<Longrightarrow>
   replay_rows today rows self =
     Inr (self\<lparr>daily_rejection_count := daily_rejection_count self + int (length rows),
               consecutive_rejections := consecutive_rejections self + int (length rows)\<rparr>)"
  by (induction rows arbitrary: self)
     (auto simp: today_event_def count_rejected_def split: option.splits)

lemma replay_other_days:
  "replay_rows today (filter (\<lambda>r. row_get r ''date'' = Some today) rows) self =
   replay_rows today rows self"
  by (induction rows arbitrary: self) (auto split: option.splits)

text \<open>
  The log that \<open>log_scenario\<close> creates reads back as the one row logged. Appended to a
  file of zero bytes, the record has no header before it: the reader takes it for the
  column names and yields no row.
\<close>

lemma log_scenario_creates_log:
  "dict_reader (fst (log_scenario today (None, self) date_utc symbol status))
     = Some [log_row date_utc symbol (upper status)]"
  by (simp add: log_scenario_def Let_def write_csv_row_def row_values_def log_row_def
      dict_reader_def read_row_def)

lemma log_scenario_zero_byte_log:
  "dict_reader (fst (log_scenario today (Some [], self) date_utc symbol status)) = Some []"
  by (simp add: log_scenario_def Let_def write_csv_row_def dict_reader_def)

text \<open>
  C2. A fresh \<open>ContextEvaluator\<close> whose log holds N events dated today with status
  REJECTED has \<open>daily_rejection_count = N\<close>. In the replay and in \<open>log_scenario\<close>, a
  REJECTED event dated today adds 1 to both counters, an ACCEPTED event dated today sets
  \<open>consecutive_rejections\<close> to 0 and leaves \<open>daily_rejection_count\<close>, and an event of
  another date changes neither counter; the replay of a log equals the replay of its
  rows dated today.
\<close>

theorem hygiene_counters:
  "(list_all (today_event today ''REJECTED'') rows \<longrightarrow>
      new_context_evaluator today (Some rows) =
        Inr \<lparr>daily_rejection_count = int (length rows),
             consecutive_rejections = int (length rows)\<rparr>)
   \<and> (today_event today ''REJECTED'' r \<longrightarrow>
        replay_rows today (r # rs) self = replay_rows today rs (count_rejected self))
   \<and> (today_event today ''ACCEPTED'' r \<longrightarrow>
        replay_rows today (r # rs) self = replay_rows today rs (count_accepted self))
   \<and> (row_get r ''date'' \<noteq> Some today \<longrightarrow>
        replay_rows today (r # rs) self = replay_rows today rs self)
   \<and> new_context_evaluator today (Some all_rows) =
        new_context_evaluator today (Some (filter (\<lambda>r. row_get r ''date'' = Some today) all_rows))
   \<and> (upper status = ''REJECTED'' \<longrightarrow>
        snd (log_scenario today (logfile, self) today symbol status) = count_rejected self)
   \<and> (upper status = ''ACCEPTED'' \<longrightarrow>
        snd (log_scenario today (logfile, self) today symbol status) = count_accepted self)
   \<and> (date_utc \<noteq> today \<longrightarrow>
        snd (log_scenario today (logfile, self) date_utc symbol status) = self)
   \<and> daily_rejection_count (count_rejected self) = daily_rejection_count self + 1
   \<and> consecutive_rejections (count_rejected self) = consecutive_rejections self + 1
   \<and> consecutive_rejections (count_accepted self) = 0
   \<and> daily_rejection_count (count_accepted self) = daily_rejection_count self"
proof -
  have a: "list_all (today_event today ''REJECTED'') rows \<longrightarrow>
      new_context_evaluator today (Some rows) =
        Inr \<lparr>daily_rejection_count = int (length rows),
             consecutive_rejections = int (length rows)\<rparr>"
    by (simp add: new_context_evaluator_def load_today_stats_def replay_rejected)
  have b: "today_event today ''REJECTED'' r \<longrightarrow>
        replay_rows today (r # rs) self = replay_rows today rs (count_rejected self)"
    by (auto simp: today_event_def split: option.splits)
  have c: "today_event today ''ACCEPTED'' r \<longrightarrow>
        replay_rows today (r # rs) self = replay_rows today rs (count_accepted self)"
    by (auto simp: today_event_def split: option.splits)
  have d: "row_get r ''date'' \<noteq> Some today \<longrightarrow>
        replay_rows today (r # rs) self = replay_rows today rs self"
    by simp
  have e: "new_context_evaluator today (Some all_rows) =
        new_context_evaluator today (Some (filter (\<lambda>r. row_get r ''date'' = Some today) all_rows))"
    by (simp add: new_context_evaluator_def load_today_stats_def replay_other_days)
  have f: "upper status = ''REJECTED'' \<longrightarrow>
        snd (log_scenario today (logfile, self) today symbol status) = count_rejected self"
    by (simp add: log_scenario_def)
  have g: "upper status = ''ACCEPTED'' \<longrightarrow>
        snd (log_scenario today (logfile, self) today symbol status) = count_accepted self"
    by (simp add: log_scenario_def)
  have h: "date_utc \<noteq> today \<longrightarrow>
        snd (log_scenario today (logfile, self) date_utc symbol status) = self"
    by (simp add: log_scenario_def)
  show ?thesis
    using a b c d e f g h by (simp add: count_rejected_def count_accepted_def)
qed

theorem hygiene_counters_witness:
  "new_context_evaluator ''2025-01-02''
      (Some [log_row ''2025-01-02'' ''BTC-USDT'' ''REJECTED'',
             log_row ''2025-01-02'' ''ETH-USDT'' ''REJECTED''])
     = Inr \<lparr>daily_rejection_count = 2, consecutive_rejections = 2\<rparr>
   \<and> replay_rows ''2025-01-02'' [log_row ''2025-01-02'' ''BTC-USDT'' ''REJECTED'']
        \<lparr>daily_rejection_count = 4, consecutive_rejections = 1\<rparr>
     = Inr \<lparr>daily_rejection_count = 5, consecutive_rejections = 2\<rparr>
   \<and> replay_rows ''2025-01-02'' [log_row ''2025-01-02'' ''BTC-USDT'' ''ACCEPTED'']
        \<lparr>daily_rejection_count = 4, consecutive_rejections = 1\<rparr>
     = Inr \<lparr>daily_rejection_count = 4, consecutive_rejections = 0\<rparr>
   \<and> replay_rows ''2025-01-02'' [log_row ''2025-01-01'' ''BTC-USDT'' ''REJECTED'']
        \<lparr>daily_rejection_count = 4, consecutive_rejections = 1\<rparr>
     = Inr \<lparr>daily_rejection_count = 4, consecutive_rejections = 1\<rparr>
   \<and> snd (log_scenario ''2025-01-02''
        (None, \<lparr>daily_rejection_count = 4, consecutive_rejections = 1\<rparr>)
        ''2025-01-02'' ''BTC-USDT'' ''rejected'')
     = \<lparr>daily_rejection_count = 5, consecutive_rejections = 2\<rparr>
   \<and> snd (log_scenario ''2025-01-02''
        (None, \<lparr>daily_rejection_count = 4, consecutive_rejections = 1\<rparr>)
        ''2025-01-02'' ''BTC-USDT'' ''accepted'')
     = \<lparr>daily_rejection_count = 4, consecutive_rejections = 0\<rparr>
   \<and> snd (log_scenario ''2025-01-02''
        (None, \<lparr>daily_rejection_count = 4, consecutive_rejections = 1\<rparr>)
        ''2025-01-01'' ''BTC-USDT'' ''REJECTED'')
     = \<lparr>daily_rejection_count = 4, consecutive_rejections = 1\<rparr>"
proof -
  let ?t = "''2025-01-02''"
  let ?c = "\<lparr>daily_rejection_count = 4, consecutive_rejections = 1\<rparr>"
  have rej: "today_event ?t ''REJECTED'' (log_row ?t s ''REJECTED'')" for s
    by (simp add: today_event_def log_row_def row_get_def row_get_default_def eval_str)
  have acc: "today_event ?t ''ACCEPTED'' (log_row ?t ''BTC-USDT'' ''ACCEPTED'')"
    by (simp add: today_event_def log_row_def row_get_def row_get_default_def eval_str)
  have old: "row_get (log_row ''2025-01-01'' ''BTC-USDT'' ''REJECTED'') ''date'' \<noteq> Some ?t"
    by (simp add: log_row_def row_get_def)
  have all: "list_all (today_event ?t ''REJECTED'')
      [log_row ?t ''BTC-USDT'' ''REJECTED'', log_row ?t ''ETH-USDT'' ''REJECTED'']"
    using rej by simp
  have up_r: "upper ''rejected'' = ''REJECTED''" by (simp add: eval_str)
  have up_a: "upper ''accepted'' = ''ACCEPTED''" by (simp add: eval_str)
  have ne: "''2025-01-01'' \<noteq> ?t" by simp
  note h = hygiene_counters [where today = ?t and self = ?c and rs = "[]" and logfile = None
      and symbol = "''BTC-USDT''"]
  have 1: "new_context_evaluator ?t
      (Some [log_row ?t ''BTC-USDT'' ''REJECTED'', log_row ?t ''ETH-USDT'' ''REJECTED''])
     = Inr \<lparr>daily_rejection_count = 2, consecutive_rejections = 2\<rparr>"
    using h [where rows = "[log_row ?t ''BTC-USDT'' ''REJECTED'', log_row ?t ''ETH-USDT'' ''REJECTED'']"] all
    by simp
  have 2: "replay_rows ?t [log_row ?t ''BTC-USDT'' ''REJECTED''] ?c
     = Inr \<lparr>daily_rejection_count = 5, consecutive_rejections = 2\<rparr>"
    using h [where r = "log_row ?t ''BTC-USDT'' ''REJECTED''"] rej
    by (simp add: count_rejected_def)
  have 3: "replay_rows ?t [log_row ?t ''BTC-USDT'' ''ACCEPTED''] ?c
     = Inr \<lparr>daily_rejection_count = 4, consecutive_rejections = 0\<rparr>"
    using h [where r = "log_row ?t ''BTC-USDT'' ''ACCEPTED''"] acc
    by (simp add: count_accepted_def)
  have 4: "replay_rows ?t [log_row ''2025-01-01'' ''BTC-USDT'' ''REJECTED''] ?c = Inr ?c"
    using h [where r = "log_row ''2025-01-01'' ''BTC-USDT'' ''REJECTED''"] old
    by simp
  have 5: "snd (log_scenario ?t (None, ?c) ?t ''BTC-USDT'' ''rejected'')
     = \<lparr>daily_rejection_count = 5, consecutive_rejections = 2\<rparr>"
    using h [where status = "''rejected''"] up_r by (simp add: count_rejected_def)
  have 6: "snd (log_scenario ?t (None, ?c) ?t ''BTC-USDT'' ''accepted'')
     = \<lparr>daily_rejection_count = 4, consecutive_rejections = 0\<rparr>"
    using h [where status = "''accepted''"] up_a by (simp add: count_accepted_def)
  have 7: "snd (log_scenario ?t (None, ?c) ''2025-01-01'' ''BTC-USDT'' ''REJECTED'') = ?c"
    using h [where date_utc = "''2025-01-01''" and status = "''REJECTED''"] ne by simp
  show ?thesis using 1 2 3 4 5 6 7 by simp
qed

section \<open>Indicators\<close>

text \<open>
  What \<open>calculate_trend\<close> compares: the last close with the fifth close from the end,
  which is four bars before it.
\<close>

lemma calculate_trend_compares:
  assumes "6 \<le> length closes"
  shows "calculate_trend closes atr ema_period =
     (if last closes > closes ! (length closes - 5) + 0.2 * atr then ''up''
      else if last closes < closes ! (length closes - 5) - 0.2 * atr then ''down''
      else ''flat'')"
proof -
  have ne: "closes \<noteq> []" using assms by auto
  have l: "py_nth closes (- 1) = last closes"
    using assms by (simp add: py_nth_def last_conv_nth [OF ne] nat_diff_distrib')
  have f: "py_nth closes (- 5) = closes ! (length closes - 5)"
    using assms by (simp add: py_nth_def nat_diff_distrib')
  show ?thesis using assms by (simp add: calculate_trend_def l f)
qed

text \<open>
  C4. The claim: with six closes or more, \<open>calculate_trend\<close> is "up" exactly when the
  latest close exceeds the close five bars back by more than 0.2 ATR. For the closes
  0, 10, 10, 10, 10, 10 and ATR 1 the latest close, 10, exceeds the close five bars back,
  0, by more than 0.2, and the code returns "flat": it reads \<open>closes[-5]\<close>, four bars back.
\<close>

theorem calculate_trend_four_bars_back:
  "calculate_trend [0, 10, 10, 10, 10, 10] 1 10 = ''flat'' \<and>
   py_nth [0, 10, 10, 10, 10, 10 :: real] (- 1) > py_nth [0, 10, 10, 10, 10, 10] (- 6) + 0.2 * 1 \<and>
   py_nth [0, 10, 10, 10, 10, 10 :: real] (- 5) = 10"
  by (simp add: calculate_trend_def py_nth_def)

text \<open>
  C5. The claim: the market-mode classifier returns one of "trend", "scalp", "flat" and
  "neutral". For a flat trend with the fast ATR below 0.6 of the slow one the code
  returns the string "flet", which is none of them.
\<close>

theorem classify_market_mode_flet:
  "classify_market_mode ''flat'' 1 2 [1, 1] = Inr ''flet'' \<and> ''flet'' \<notin> market_modes"
  by (simp add: classify_market_mode_def py_slice_def py_nth_def market_modes_def)

text \<open>
  C10. With both swing levels 0 and a positive price, \<open>evaluate_direction\<close> returns LONG
  with the single reason "Simple up breakout" and \<open>in_middle = False\<close>, whatever the trend,
  the ATR and the candle statistics are.
\<close>

theorem evaluate_direction_zero_levels:
  "0 < current_price \<Longrightarrow>
   evaluate_direction current_price 0 0 trend_1h atr highs lows cs
     = (Some ''LONG'', [''Simple up breakout''], False)"
  by (simp add: evaluate_direction_def)

theorem evaluate_direction_zero_levels_witness:
  "(0 :: real) < 42 \<and>
   evaluate_direction 42 0 0 ''down'' 3 [43] [41]
     \<lparr>body = 1, upper_wick = 5, lower_wick = 0, volume = 7, volume_spike = True,
      strong_body = True, doji = False, weak_volume = False\<rparr>
     = (Some ''LONG'', [''Simple up breakout''], False)"
proof -
  have h: "(0 :: real) < 42" by simp
  from evaluate_direction_zero_levels [OF h] h show ?thesis by simp
qed

section \<open>Retest filter\<close>




lemma body_stretch_status:
  "map_of (body_stretch atr) ''status'' = Some (Str ''skip'') \<and>
   map_of (body_stretch atr) ''reason'' =
     Some (Str (''body stretch '' @ em_dash @ '' evaluation too late''))"
  by (simp add: body_stretch_def)







end
